theory Spec2Isabelle
  imports Main
begin

section \<open>Data model\<close>

text \<open>
  The language server of the Drupal Check extension: \<^verbatim>\<open>server/src/checker.ts\<close> (class
  \<^verbatim>\<open>DrupalCheck\<close>), \<^verbatim>\<open>server/src/settings.ts\<close> and \<^verbatim>\<open>server/src/server.ts\<close>.
  A JavaScript string is a \<^typ>\<open>string\<close>, one \<^typ>\<open>char\<close> for each code unit; \<^verbatim>\<open>null\<close>
  and \<^verbatim>\<open>undefined\<close> are \<^const>\<open>None\<close> of an option type.
\<close>

record CheckerSettings =
  enable :: bool
  executablePath :: "string option"
  workspaceRoot :: "string option"
  maxNumberOfProblems :: int

record TextDocument =
  uri :: string
  getText :: string

text \<open>
  Modelled from the spec: the interface \<^verbatim>\<open>DrupalCheckMessage\<close> of \<^verbatim>\<open>./message\<close>, which is not
  among the sources. The spec gives a message of the report as
  \<^verbatim>\<open>{ line: <1-based int>, message: <string> }\<close>.
\<close>

record DrupalCheckMessage =
  line :: int
  message :: string

datatype DiagnosticSeverity = Error | Warning | Information | Hint

record Position =
  pos_line :: int
  character :: int

record Range =
  range_start :: Position
  range_end :: Position

record Diagnostic =
  diag_range :: Range
  diag_message :: string
  severity :: DiagnosticSeverity
  diag_code :: "string option"
  diag_source :: string

definition Range_create :: "int \<Rightarrow> int \<Rightarrow> int \<Rightarrow> int \<Rightarrow> Range" where
  "Range_create l1 c1 l2 c2 =
     \<lparr>range_start = \<lparr>pos_line = l1, character = c1\<rparr>,
      range_end = \<lparr>pos_line = l2, character = c2\<rparr>\<rparr>"

definition Diagnostic_create ::
    "Range \<Rightarrow> string \<Rightarrow> DiagnosticSeverity \<Rightarrow> string option \<Rightarrow> string \<Rightarrow> Diagnostic" where
  "Diagnostic_create r m sev c src =
     \<lparr>diag_range = r, diag_message = m, severity = sev, diag_code = c, diag_source = src\<rparr>"

text \<open>
  A thrown value. \<^verbatim>\<open>new Error(m)\<close> has a message and neither \<^verbatim>\<open>stdout\<close> nor
  \<^verbatim>\<open>stderr\<close>; so has a \<^verbatim>\<open>TypeError\<close> of the runtime, whose message here names the
  access that failed (the engine's own wording is not modelled). An error object raised
  by a collaborator (the process library, the file system, the configuration request)
  may carry any of the three properties.
\<close>

record js_error =
  err_name :: string
  err_message :: "string option"
  err_stdout :: "string option"
  err_stderr :: "string option"

definition new_Error :: "string \<Rightarrow> js_error" where
  "new_Error m =
     \<lparr>err_name = ''Error'', err_message = Some m, err_stdout = None, err_stderr = None\<rparr>"

definition TypeError :: "string \<Rightarrow> js_error" where
  "TypeError m =
     \<lparr>err_name = ''TypeError'', err_message = Some m, err_stdout = None, err_stderr = None\<rparr>"

section \<open>createDiagnostic\<close>

text \<open>\<^verbatim>\<open>s.split("\n")\<close>: the pieces between line feeds; the empty string gives one empty piece.\<close>

fun split_nl :: "string \<Rightarrow> string list" where
  "split_nl [] = [[]]"
| "split_nl (c # cs) =
     (if c = CHR 0x0A then [] # split_nl cs
      else (case split_nl cs of [] \<Rightarrow> [[c]] | l # ls \<Rightarrow> (c # l) # ls))"

text \<open>\<^verbatim>\<open>lines[line]\<close>: \<^verbatim>\<open>undefined\<close> when the index is not one of the array.\<close>

definition line_at :: "string list \<Rightarrow> int \<Rightarrow> string option" where
  "line_at ls i = (if 0 \<le> i \<and> i < int (length ls) then Some (ls ! nat i) else None)"

text \<open>\<^verbatim>\<open>s.charCodeAt(i)\<close>: \<^verbatim>\<open>NaN\<close>, here \<^const>\<open>None\<close>, when there is no such code unit.\<close>

definition charCodeAt :: "string \<Rightarrow> nat \<Rightarrow> nat option" where
  "charCodeAt s i = (if i < length s then Some (of_char (s ! i)) else None)"

text \<open>
  The loop \<^verbatim>\<open>for (let i = startCharacter + 1, len = lineString.length; i < len; i++)\<close> of
  \<^verbatim>\<open>createDiagnostic\<close>, from the index \<open>i\<close> on, with the value \<open>st\<close> of
  \<^verbatim>\<open>startCharacter\<close> reached so far. \<^verbatim>\<open>CharCode.isWhiteSpace\<close> belongs to
  \<^verbatim>\<open>./base/common/charcode\<close>, which is not among the sources: it is the parameter \<open>ws\<close>.
\<close>

function scan :: "(nat option \<Rightarrow> bool) \<Rightarrow> string \<Rightarrow> nat \<Rightarrow> nat \<Rightarrow> nat" where
  "scan ws s i st =
     (if i < length s
      then (if \<not> ws (charCodeAt s i) then i else scan ws s (Suc i) i)
      else st)"
  by pat_completeness auto
termination
  by (relation "measure (\<lambda>(ws, s, i, st). length s - i)") auto

declare scan.simps [simp del]

text \<open>The start column: the statements of \<^verbatim>\<open>createDiagnostic\<close> that set \<^verbatim>\<open>startCharacter\<close>.\<close>

definition resolveStart :: "(nat option \<Rightarrow> bool) \<Rightarrow> string \<Rightarrow> nat" where
  "resolveStart ws lineString =
     (if ws (charCodeAt lineString 0) then scan ws lineString 1 0 else 0)"

definition createDiagnostic ::
    "(nat option \<Rightarrow> bool) \<Rightarrow> TextDocument \<Rightarrow> DrupalCheckMessage option \<Rightarrow> js_error + Diagnostic" where
  "createDiagnostic ws document entry =
     (case entry of
        None \<Rightarrow>
          Inr (Diagnostic_create (Range_create 0 0 0 0) [] Information None ''drupalchecker'')
      | Some e \<Rightarrow>
          if message e = [] then
            Inr (Diagnostic_create (Range_create 0 0 0 0) [] Information None ''drupalchecker'')
          else
            let lines = split_nl (getText document);
                ln = line e - 1
            in (case line_at lines ln of
                  None \<Rightarrow> Inl (TypeError ''lineString is undefined'')
                | Some lineString \<Rightarrow>
                    let startCharacter = int (resolveStart ws lineString);
                        endCharacter = int (length lineString)
                    in Inr (Diagnostic_create (Range_create ln startCharacter ln endCharacter)
                              (message e) Error None ''drupalchecker'')))"

section \<open>The report and processResults\<close>

text \<open>
  The value of \<^verbatim>\<open>JSON.parse\<close>, of TypeScript type \<^verbatim>\<open>any\<close>. \<^verbatim>\<open>processResults\<close> gives the
  array it maps over the type \<^verbatim>\<open>Array<DrupalCheckMessage>\<close>, so an array here holds
  message entries, each one \<^verbatim>\<open>null\<close> or a message. A number is an integer: the code
  reads of a number only whether it is zero. An object lists each key once.
\<close>

datatype any =
    ANull
  | ABool bool
  | ANum int
  | AStr string
  | AArr "DrupalCheckMessage option list"
  | AObj "(string \<times> any) list"

text \<open>Truthiness, of a value that may be \<^verbatim>\<open>undefined\<close>.\<close>

fun truthy :: "any option \<Rightarrow> bool" where
  "truthy None = False"
| "truthy (Some ANull) = False"
| "truthy (Some (ABool b)) = b"
| "truthy (Some (ANum n)) = (n \<noteq> 0)"
| "truthy (Some (AStr s)) = (s \<noteq> [])"
| "truthy (Some (AArr ms)) = True"
| "truthy (Some (AObj kvs)) = True"

text \<open>
  \<^verbatim>\<open>v[k]\<close> and \<^verbatim>\<open>v.k\<close>: a \<^verbatim>\<open>TypeError\<close> on \<^verbatim>\<open>undefined\<close> and \<^verbatim>\<open>null\<close>, the value of the
  key in an object, \<^verbatim>\<open>undefined\<close> where there is no such key. The members that a value
  inherits from its prototype are left out: the code asks for \<^verbatim>\<open>files\<close>, \<^verbatim>\<open>messages\<close>
  and the real path of a file, and none of them names such a member.
\<close>

fun get_prop :: "any option \<Rightarrow> string \<Rightarrow> js_error + any option" where
  "get_prop None k = Inl (TypeError (''cannot read property '' @ k @ '' of undefined''))"
| "get_prop (Some ANull) k = Inl (TypeError (''cannot read property '' @ k @ '' of null''))"
| "get_prop (Some (AObj kvs)) k = Inr (map_of kvs k)"
| "get_prop (Some v) k = Inr None"

record spawn_options =
  cwd :: "string option"
  encoding :: string
  timeout :: int
  tty :: bool
  input :: string

record spawn_output =
  status :: "int option"
  stdout :: "string option"
  stderr :: "string option"

text \<open>The strings of \<^verbatim>\<open>./strings\<close>, which is not among the sources.\<close>

record StringResources =
  InvalidJsonStringError :: string
  CreateCheckerError :: string
  CreateCheckerErrorDefaultMessage :: string
  DidStartValidateTextDocument :: string
  DidEndValidateTextDocument :: string
  UnknownErrorWhileValidatingTextDocument :: string

text \<open>
  What the code takes from its platform and from the modules that are not among the
  sources: the home directory, whether \<^verbatim>\<open>process.platform\<close> starts with \<^verbatim>\<open>win\<close>,
  \<^verbatim>\<open>Files.uriToFilePath\<close> (which raises a \<^verbatim>\<open>URIError\<close> on a URI with a malformed escape
  and returns \<^verbatim>\<open>undefined\<close> for a URI that is not one of a file), \<^verbatim>\<open>path.parse(p).root\<close>, \<^verbatim>\<open>path.join\<close>, \<^verbatim>\<open>toUpperCase\<close>,
  \<^verbatim>\<open>child_process.spawnSync\<close>, the \<^verbatim>\<open>spawn\<close> of \<^verbatim>\<open>cross-spawn-promise\<close> (which
  resolves with the standard output on exit status zero and rejects otherwise),
  \<^verbatim>\<open>extfs.realpathSync\<close>, \<^verbatim>\<open>JSON.parse\<close> (\<^const>\<open>None\<close> when it throws),
  \<^verbatim>\<open>CharCode.isWhiteSpace\<close>, \<^verbatim>\<open>strings.format\<close>, the string resources, and the answer
  to \<^verbatim>\<open>connection.workspace.getConfiguration\<close> for a given scope.
\<close>

record env =
  homeDirectory :: string
  isWin :: bool
  uriToFilePath :: "string \<Rightarrow> js_error + string option"
  path_root :: "string \<Rightarrow> string"
  path_join :: "string \<Rightarrow> string \<Rightarrow> string"
  toUpperCase :: "string \<Rightarrow> string"
  spawnSync :: "string \<Rightarrow> string option list \<Rightarrow> spawn_options \<Rightarrow> js_error + spawn_output"
  spawn :: "string \<Rightarrow> string option list \<Rightarrow> spawn_options \<Rightarrow> js_error + string"
  realpathSync :: "string \<Rightarrow> js_error + string"
  JSON_parse :: "string \<Rightarrow> any option"
  isWhiteSpace :: "nat option \<Rightarrow> bool"
  format :: "string \<Rightarrow> string option list \<Rightarrow> string"
  SR :: StringResources
  getConfiguration :: "string \<Rightarrow> js_error + CheckerSettings"

definition parseData :: "env \<Rightarrow> string \<Rightarrow> js_error + any" where
  "parseData env text_in =
     (case JSON_parse env text_in of
        None \<Rightarrow> Inl (new_Error (InvalidJsonStringError (SR env)))
      | Some data \<Rightarrow> Inr data)"

text \<open>
  \<^verbatim>\<open>messages.map(message => diagnostics.push(this.createDiagnostic(document, message)))\<close>:
  the messages in order; an exception of \<^verbatim>\<open>createDiagnostic\<close> ends the whole call.
\<close>

fun push_diagnostics ::
    "(nat option \<Rightarrow> bool) \<Rightarrow> TextDocument \<Rightarrow> DrupalCheckMessage option list
      \<Rightarrow> js_error + Diagnostic list" where
  "push_diagnostics ws document [] = Inr []"
| "push_diagnostics ws document (m # ms) =
     (case createDiagnostic ws document m of
        Inl e \<Rightarrow> Inl e
      | Inr d \<Rightarrow>
          (case push_diagnostics ws document ms of
             Inl e \<Rightarrow> Inl e
           | Inr ds \<Rightarrow> Inr (d # ds)))"

text \<open>\<^verbatim>\<open>messages.map(...)\<close> on the value that \<^verbatim>\<open>messages\<close> holds: only an array has \<^verbatim>\<open>map\<close>.\<close>

fun map_messages ::
    "(nat option \<Rightarrow> bool) \<Rightarrow> TextDocument \<Rightarrow> any option \<Rightarrow> js_error + Diagnostic list" where
  "map_messages ws document (Some (AArr ms)) = push_diagnostics ws document ms"
| "map_messages ws document v = Inl (TypeError ''messages.map is not a function'')"

definition processResults ::
    "env \<Rightarrow> string option \<Rightarrow> TextDocument \<Rightarrow> string \<Rightarrow> js_error + Diagnostic list" where
  "processResults env filePath document results =
     (case parseData env results of
        Inl e \<Rightarrow> Inl e
      | Inr data \<Rightarrow>
          (case filePath of
             None \<Rightarrow> map_messages (isWhiteSpace env) document (Some (AArr []))
           | Some fp \<Rightarrow>
               (case realpathSync env fp of
                  Inl e \<Rightarrow> Inl e
                | Inr fileRealPath \<Rightarrow>
                    (case get_prop (Some data) ''files'' of
                       Inl e \<Rightarrow> Inl e
                     | Inr files \<Rightarrow>
                         (case get_prop files fileRealPath of
                            Inl e \<Rightarrow> Inl e
                          | Inr entry \<Rightarrow>
                              if \<not> truthy entry then Inr []
                              else
                                (case get_prop entry ''messages'' of
                                   Inl e \<Rightarrow> Inl e
                                 | Inr messages \<Rightarrow>
                                     map_messages (isWhiteSpace env) document messages))))))"

section \<open>create and check\<close>

text \<open>What a validation does to the outside, in the order in which it does it.\<close>

datatype event =
    Spawned string "string option list" spawn_options
  | ConsoleInfo string
  | ConsoleError string
  | ConfigurationRequest string
  | SentNotification string string
  | TracerLog string
  | SentDiagnostics string "Diagnostic list option"

text \<open>An instance of the class \<^verbatim>\<open>DrupalCheck\<close>: its one field.\<close>

record DrupalCheck =
  checker_executablePath :: string

text \<open>
  The replacement text of \<^verbatim>\<open>s.replace(pattern, template)\<close> for a pattern that is a string:
  in the template \<^verbatim>\<open>$$\<close> stands for a dollar sign, \<^verbatim>\<open>$&\<close> for the text that matched, a
  dollar sign and a backquote for the text before the match, a dollar sign and a quote for
  the text after it; every other character stands for itself.
\<close>

fun substitute :: "string \<Rightarrow> string \<Rightarrow> string \<Rightarrow> string \<Rightarrow> string" where
  "substitute [] left matched right = []"
| "substitute [c] left matched right = [c]"
| "substitute (c # d # cs) left matched right =
     (if c = CHR 0x24 \<and> d = CHR 0x24 then CHR 0x24 # substitute cs left matched right
      else if c = CHR 0x24 \<and> d = CHR 0x26 then matched @ substitute cs left matched right
      else if c = CHR 0x24 \<and> d = CHR 0x60 then left @ substitute cs left matched right
      else if c = CHR 0x24 \<and> d = CHR 0x27 then right @ substitute cs left matched right
      else c # substitute (d # cs) left matched right)"

text \<open>
  \<^verbatim>\<open>DrupalCheck.create\<close>. The setting may be \<^verbatim>\<open>null\<close>, and then \<^verbatim>\<open>startsWith\<close> raises the
  \<^verbatim>\<open>TypeError\<close> that the \<^verbatim>\<open>catch\<close> wraps. \<^verbatim>\<open>replace("~", homeDirectory)\<close> replaces the
  first tilde, which \<^verbatim>\<open>startsWith("~/")\<close> has found at the front, so that nothing stands
  before the match; the home directory is the template of the replacement.
\<close>

definition create :: "env \<Rightarrow> string option \<Rightarrow> js_error + DrupalCheck" where
  "create env path =
     (case (case path of
              None \<Rightarrow> Inl (TypeError ''cannot read property startsWith of null'')
            | Some p \<Rightarrow>
                Inr \<lparr>checker_executablePath =
                       (if take 2 p = ''~/''
                        then substitute (homeDirectory env) [] ''~'' (drop 1 p) @ drop 1 p
                        else p)\<rparr>) of
        Inl error \<Rightarrow>
          let msg = (case err_message error of
                       None \<Rightarrow> CreateCheckerErrorDefaultMessage (SR env)
                     | Some m \<Rightarrow> if m \<noteq> [] then m else CreateCheckerErrorDefaultMessage (SR env))
          in Inl (new_Error (format env (CreateCheckerError (SR env)) [Some msg]))
      | Inr checker \<Rightarrow> Inr checker)"

text \<open>
  The first statements of \<^verbatim>\<open>check\<close>: the path of the document, with the drive letter in
  capitals on Windows; \<^verbatim>\<open>undefined\<close> when the URI is not one of a file; the exception of
  \<^verbatim>\<open>Files.uriToFilePath\<close> when it raises one.
\<close>

definition lint_path :: "env \<Rightarrow> TextDocument \<Rightarrow> js_error + string option" where
  "lint_path env document =
     (case uriToFilePath env (uri document) of
        Inl e \<Rightarrow> Inl e
      | Inr None \<Rightarrow> Inr None
      | Inr (Some fp) \<Rightarrow>
          if isWin env then
            let pathRoot = path_root env fp;
                noDrivePath = drop (nat (max (int (length pathRoot) - 1) 0)) fp
            in Inr (Some (path_join env (toUpperCase env pathRoot) noDrivePath))
          else Inr (Some fp))"

text \<open>
  The options of the process. \<^verbatim>\<open>env: process.env\<close> hands the environment of the server
  on as it is and is left out; the time limit is in milliseconds.
\<close>

definition lint_options :: "CheckerSettings \<Rightarrow> string \<Rightarrow> spawn_options" where
  "lint_options settings fileText =
     \<lparr>cwd = workspaceRoot settings, encoding = ''utf8'', timeout = 1000 * 60 * 5,
      tty = True, input = fileText\<rparr>"

definition lint_args :: "string option \<Rightarrow> string option list" where
  "lint_args filePath = [Some ''--format=json'', Some ''--no-progress'', filePath]"

text \<open>Truthiness of a string that may be \<^verbatim>\<open>null\<close> or \<^verbatim>\<open>undefined\<close>.\<close>

definition truthy_str :: "string option \<Rightarrow> bool" where
  "truthy_str v = (case v of None \<Rightarrow> False | Some s \<Rightarrow> s \<noteq> [])"

text \<open>
  The \<^verbatim>\<open>catch\<close> block of \<^verbatim>\<open>check\<close>: with a standard output in the error object, the
  diagnostics of that output; otherwise nothing is returned, which makes the value of the
  call \<^verbatim>\<open>undefined\<close>, after the standard error, when there is one, has gone to the console.
  The first component is the settled promise: \<^const>\<open>Inl\<close> a rejection, \<^const>\<open>Inr\<close> the value,
  \<^const>\<open>None\<close> for \<^verbatim>\<open>undefined\<close>.
\<close>

definition check_catch ::
    "env \<Rightarrow> string option \<Rightarrow> TextDocument \<Rightarrow> js_error
      \<Rightarrow> (js_error + Diagnostic list option) \<times> event list" where
  "check_catch env filePath document error =
     (if truthy_str (err_stdout error) then
        (case processResults env filePath document (the (err_stdout error)) of
           Inl e \<Rightarrow> (Inl e, [ConsoleError ''Issues found.''])
         | Inr ds \<Rightarrow> (Inr (Some ds), [ConsoleError ''Issues found.'']))
      else if truthy_str (err_stderr error) then
        (Inr None,
         [ConsoleError ''Error could not continue.'', ConsoleError (the (err_stderr error))])
      else (Inr None, []))"

text \<open>
  \<^verbatim>\<open>check\<close> of \<^verbatim>\<open>server/src/checker.ts\<close>. The \<^verbatim>\<open>try\<close> block holds the call of
  \<^verbatim>\<open>spawnSync\<close>, the \<^verbatim>\<open>throw\<close> on a missing output and the call of \<^verbatim>\<open>processResults\<close>,
  so the \<^verbatim>\<open>catch\<close> block receives the exceptions of all three. The path of the document
  is computed before the text is tested and outside the \<^verbatim>\<open>try\<close> block: an exception of
  \<^verbatim>\<open>Files.uriToFilePath\<close> rejects the promise of \<^verbatim>\<open>check\<close>.
\<close>

definition check ::
    "env \<Rightarrow> DrupalCheck \<Rightarrow> TextDocument \<Rightarrow> CheckerSettings
      \<Rightarrow> (js_error + Diagnostic list option) \<times> event list" where
  "check env checker document settings =
     (case lint_path env document of
        Inl e \<Rightarrow> (Inl e, [])
      | Inr filePath \<Rightarrow>
          let fileText = getText document
          in if fileText = [] then (Inr (Some []), [])
             else
               let lintArgs = lint_args filePath;
                   options = lint_options settings fileText;
                   spawned = Spawned (checker_executablePath checker) lintArgs options
               in (case spawnSync env (checker_executablePath checker) lintArgs options of
                     Inl error \<Rightarrow>
                       (let (r, evs) = check_catch env filePath document error
                        in (r, spawned # evs))
                   | Inr output \<Rightarrow>
                       if \<not> truthy_str (stdout output) then
                         (let (r, evs) =
                                check_catch env filePath document (new_Error ''Missing output'')
                          in (r, spawned # ConsoleInfo ''Success!'' # evs))
                       else
                         (case processResults env filePath document (the (stdout output)) of
                            Inl error \<Rightarrow>
                              (let (r, evs) = check_catch env filePath document error
                               in (r, spawned # ConsoleInfo ''Success!'' # evs))
                          | Inr ds \<Rightarrow> (Inr (Some ds), [spawned, ConsoleInfo ''Success!'']))))"

text \<open>
  \<^verbatim>\<open>check\<close> of the other copy of the checker among the sources, which awaits the
  \<^verbatim>\<open>spawn\<close> of \<^verbatim>\<open>cross-spawn-promise\<close>: \<^verbatim>\<open>then\<close> handles the standard output of a process
  that exited with status zero, and \<^verbatim>\<open>catch\<close> the rejection as well as an exception of
  the \<^verbatim>\<open>then\<close> handler.
\<close>

definition legacy_catch ::
    "env \<Rightarrow> string option \<Rightarrow> TextDocument \<Rightarrow> js_error
      \<Rightarrow> (js_error + Diagnostic list option) \<times> event list" where
  "legacy_catch env filePath document error =
     (if truthy_str (err_stdout error) then
        (case processResults env filePath document (the (err_stdout error)) of
           Inl e \<Rightarrow> (Inl e, [ConsoleError ''Issues found.''])
         | Inr ds \<Rightarrow> (Inr (Some ds), [ConsoleError ''Issues found.'']))
      else if truthy_str (err_stderr error) then
        (Inr None, [ConsoleError ''Issues found.'', ConsoleError (the (err_stderr error))])
      else (Inr None, []))"

definition check_legacy ::
    "env \<Rightarrow> DrupalCheck \<Rightarrow> TextDocument \<Rightarrow> CheckerSettings
      \<Rightarrow> (js_error + Diagnostic list option) \<times> event list" where
  "check_legacy env checker document settings =
     (case lint_path env document of
        Inl e \<Rightarrow> (Inl e, [])
      | Inr filePath \<Rightarrow>
          let fileText = getText document
          in if fileText = [] then (Inr (Some []), [])
             else
               let lintArgs = lint_args filePath;
                   options = lint_options settings fileText;
                   spawned = Spawned (checker_executablePath checker) lintArgs options
               in (case spawn env (checker_executablePath checker) lintArgs options of
                     Inl error \<Rightarrow>
                       (let (r, evs) = legacy_catch env filePath document error
                        in (r, spawned # evs))
                   | Inr out \<Rightarrow>
                       (case processResults env filePath document out of
                          Inl error \<Rightarrow>
                            (let (r, evs) = legacy_catch env filePath document error
                             in (r, spawned # ConsoleInfo ''Success!'' # evs))
                        | Inr ds \<Rightarrow> (Inr (Some ds), [spawned, ConsoleInfo ''Success!'']))))"

section \<open>The server\<close>

text \<open>
  The variables of \<^verbatim>\<open>server/src/server.ts\<close> that a validation reads or writes, and the
  events that the server has caused, oldest first. A cached promise of settings is kept
  as what it settles to. One validation runs from its start to its end: what another
  handler does between two \<^verbatim>\<open>await\<close>s of it is not modelled.
\<close>

record server =
  hasConfigurationCapability :: bool
  globalSettings :: CheckerSettings
  documentSettings :: "string \<rightharpoonup> (js_error + CheckerSettings)"
  validating :: "string \<rightharpoonup> TextDocument"
  events :: "event list"

definition defaultSettings :: CheckerSettings where
  "defaultSettings =
     \<lparr>enable = True, executablePath = Some ''/usr/local/bin/drupal-check'',
      workspaceRoot = None, maxNumberOfProblems = 1000\<rparr>"

definition emit :: "event list \<Rightarrow> server \<Rightarrow> server" where
  "emit evs st = st\<lparr>events := events st @ evs\<rparr>"

definition getDocumentSettings ::
    "env \<Rightarrow> server \<Rightarrow> string \<Rightarrow> (js_error + CheckerSettings) \<times> server" where
  "getDocumentSettings env st resource =
     (if \<not> hasConfigurationCapability st then (Inr (globalSettings st), st)
      else
        (case documentSettings st resource of
           Some result \<Rightarrow> (result, st)
         | None \<Rightarrow>
             let result = getConfiguration env resource
             in (result,
                 emit [ConfigurationRequest resource]
                   (st\<lparr>documentSettings := (documentSettings st)(resource \<mapsto> result)\<rparr>))))"

definition sendStartValidationNotification :: "env \<Rightarrow> server \<Rightarrow> TextDocument \<Rightarrow> server" where
  "sendStartValidationNotification env st document =
     emit [SentNotification ''textDocument/didStartValidate'' (uri document),
           TracerLog (format env (DidStartValidateTextDocument (SR env)) [Some (uri document)])]
       (st\<lparr>validating := (validating st)(uri document \<mapsto> document)\<rparr>)"

definition sendEndValidationNotification :: "env \<Rightarrow> server \<Rightarrow> TextDocument \<Rightarrow> server" where
  "sendEndValidationNotification env st document =
     emit [SentNotification (format env (DidEndValidateTextDocument (SR env)) []) (uri document),
           TracerLog (format env (DidEndValidateTextDocument (SR env)) [Some (uri document)])]
       (st\<lparr>validating := (validating st)(uri document := None)\<rparr>)"

text \<open>\<^verbatim>\<open>message.replace(/\r?\n/g, ' ')\<close>.\<close>

fun replace_newlines :: "string \<Rightarrow> string" where
  "replace_newlines [] = []"
| "replace_newlines [c] = (if c = CHR 0x0A then '' '' else [c])"
| "replace_newlines (c # d # cs) =
     (if c = CHR 0x0D \<and> d = CHR 0x0A then CHR '' '' # replace_newlines cs
      else if c = CHR 0x0A then CHR '' '' # replace_newlines (d # cs)
      else c # replace_newlines (d # cs))"

text \<open>
  \<^verbatim>\<open>getExceptionMessage\<close>: the message of the exception, or, for an exception without a
  message that is a string, the formatted resource, for which \<^verbatim>\<open>Files.uriToFilePath\<close> is called
  and may raise.
\<close>

definition getExceptionMessage :: "env \<Rightarrow> js_error \<Rightarrow> TextDocument \<Rightarrow> js_error + string" where
  "getExceptionMessage env exception document =
     (case err_message exception of
        Some m \<Rightarrow>
          let m1 = replace_newlines m
          in Inr (if take 7 m1 = ''ERROR: '' then drop 5 m1 else m1)
      | None \<Rightarrow>
          (case uriToFilePath env (uri document) of
             Inl e \<Rightarrow> Inl e
           | Inr fp \<Rightarrow>
               Inr (format env (UnknownErrorWhileValidatingTextDocument (SR env)) [fp])))"

text \<open>
  The \<^verbatim>\<open>catch\<close> block of \<^verbatim>\<open>validateSingle\<close>,
  \<^verbatim>\<open>throw new Error(getExceptionMessage(error, document))\<close>: the exception that leaves it.
\<close>

definition rethrown :: "env \<Rightarrow> js_error \<Rightarrow> TextDocument \<Rightarrow> js_error" where
  "rethrown env error document =
     (case getExceptionMessage env error document of
        Inl e \<Rightarrow> e
      | Inr m \<Rightarrow> new_Error m)"

text \<open>
  The \<^verbatim>\<open>finally\<close> block of \<^verbatim>\<open>validateSingle\<close>, with the value that the variable
  \<^verbatim>\<open>diagnostics\<close> holds when control reaches it.
\<close>

definition finally_publish ::
    "env \<Rightarrow> server \<Rightarrow> TextDocument \<Rightarrow> Diagnostic list option \<Rightarrow> server" where
  "finally_publish env st document diagnostics =
     emit [SentDiagnostics (uri document) diagnostics]
       (sendEndValidationNotification env st document)"

text \<open>
  \<^verbatim>\<open>validateSingle\<close>: the settled promise (\<^const>\<open>Inl\<close> a rejection) and the server afterwards.
  The variable \<^verbatim>\<open>diagnostics\<close> starts as the empty array and is assigned the value of
  \<^verbatim>\<open>check\<close> when \<^verbatim>\<open>check\<close> does not raise.
\<close>

definition validateSingle :: "env \<Rightarrow> server \<Rightarrow> TextDocument \<Rightarrow> (js_error + unit) \<times> server" where
  "validateSingle env st document =
     (case getDocumentSettings env st (uri document) of
        (Inl e, st1) \<Rightarrow> (Inl e, st1)
      | (Inr settings, st1) \<Rightarrow>
          if enable settings then
            let st2 = sendStartValidationNotification env st1 document
            in (case create env (executablePath settings) of
                  Inl error \<Rightarrow>
                    (Inl (rethrown env error document),
                     finally_publish env st2 document (Some []))
                | Inr drupalcheck \<Rightarrow>
                    (case check env drupalcheck document settings of
                       (Inl error, evs) \<Rightarrow>
                         (Inl (rethrown env error document),
                          finally_publish env (emit evs st2) document (Some []))
                     | (Inr diagnostics, evs) \<Rightarrow>
                         (Inr (), finally_publish env (emit evs st2) document diagnostics)))
          else
            (Inr (),
             (emit [SentDiagnostics (uri document) (Some [])] st1)
               \<lparr>documentSettings := (documentSettings st1)(uri document := None)\<rparr>))"

text \<open>\<^verbatim>\<open>validateMany\<close>: one document after the other; a rejection ends the loop.\<close>

fun validateMany :: "env \<Rightarrow> server \<Rightarrow> TextDocument list \<Rightarrow> (js_error + unit) \<times> server" where
  "validateMany env st [] = (Inr (), st)"
| "validateMany env st (d # ds) =
     (case validateSingle env st d of
        (Inl e, st1) \<Rightarrow> (Inl e, st1)
      | (Inr u, st1) \<Rightarrow> validateMany env st1 ds)"

section \<open>Reading the events\<close>

text \<open>The diagnostic sets that were published, with their URIs, oldest first.\<close>

fun published :: "event list \<Rightarrow> (string \<times> Diagnostic list option) list" where
  "published [] = []"
| "published (SentDiagnostics u ds # es) = (u, ds) # published es"
| "published (e # es) = published es"

text \<open>The processes that were started: executable, arguments and options.\<close>

fun spawns :: "event list \<Rightarrow> (string \<times> string option list \<times> spawn_options) list" where
  "spawns [] = []"
| "spawns (Spawned exe args opts # es) = (exe, args, opts) # spawns es"
| "spawns (e # es) = spawns es"

section \<open>A concrete setting\<close>

text \<open>
  A classifier that holds the space and the tab to be white space, a document of five
  lines, the report of one message on its fifth line, and a platform on which the
  checker exits with status 1 after it has written that report.
\<close>

definition ws_space_tab :: "nat option \<Rightarrow> bool" where
  "ws_space_tab c = (c = Some 32 \<or> c = Some 9)"

definition sample_report_text :: string where
  \<open>sample_report_text =
     ''{"files":{"/abs/path.php":{"messages":[{"line":5,"message":"Deprecated call"}]}}}''\<close>

definition sample_report :: any where
  "sample_report =
     AObj [(''files'',
            AObj [(''/abs/path.php'',
                   AObj [(''messages'',
                          AArr [Some \<lparr>line = 5, message = ''Deprecated call''\<rparr>])])])]"

text \<open>A report whose second message is on a ninth line, which the document has not.\<close>

definition stale_report_text :: string where
  \<open>stale_report_text =
     ''{"files":{"/abs/path.php":{"messages":[{"line":5,"message":"Deprecated call"},{"line":9,"message":"Gone"}]}}}''\<close>

definition stale_report :: any where
  "stale_report =
     AObj [(''files'',
            AObj [(''/abs/path.php'',
                   AObj [(''messages'',
                          AArr [Some \<lparr>line = 5, message = ''Deprecated call''\<rparr>,
                                Some \<lparr>line = 9, message = ''Gone''\<rparr>])])])]"

text \<open>A text that is JSON and has not the shape of a report.\<close>

definition misshapen_report_text :: string where
  \<open>misshapen_report_text = ''{"files":5}''\<close>

definition sample_document :: TextDocument where
  "sample_document =
     \<lparr>uri = ''file:///abs/path.php'',
      getText = ''<?php'' @ [CHR 0x0A] @ ''/* test */'' @ [CHR 0x0A] @ [CHR 0x0A]
                @ ''f();'' @ [CHR 0x0A] @ ''  drupal_set_message(1234);'' @ [CHR 0x0A]\<rparr>"

definition sample_strings :: StringResources where
  "sample_strings =
     \<lparr>InvalidJsonStringError = ''The checker returned an invalid JSON string.'',
      CreateCheckerError = ''Unable to create the checker.'',
      CreateCheckerErrorDefaultMessage = ''Unknown reason.'',
      DidStartValidateTextDocument = ''Validation started.'',
      DidEndValidateTextDocument = ''Validation ended.'',
      UnknownErrorWhileValidatingTextDocument = ''Unknown error while validating.''\<rparr>"

definition sample_env :: env where
  \<open>sample_env =
     \<lparr>homeDirectory = ''/home/dev'',
      isWin = False,
      uriToFilePath = (\<lambda>u.
         if u = ''file:///abs/%E0%A4%A.php''
         then Inl \<lparr>err_name = ''URIError'', err_message = Some ''URI malformed'',
                   err_stdout = None, err_stderr = None\<rparr>
         else if take 7 u = ''file://'' then Inr (Some (drop 7 u)) else Inr None),
      path_root = (\<lambda>p. take 1 p),
      path_join = (\<lambda>a b. a @ b),
      toUpperCase = (\<lambda>p. p),
      spawnSync = (\<lambda>exe args opts.
         Inr \<lparr>status = Some 1, stdout = Some sample_report_text, stderr = Some []\<rparr>),
      spawn = (\<lambda>exe args opts.
         Inl \<lparr>err_name = ''Error'', err_message = Some ''Exited with status 1'',
              err_stdout = Some sample_report_text, err_stderr = Some []\<rparr>),
      realpathSync = (\<lambda>p. Inr p),
      JSON_parse = (\<lambda>t. if t = sample_report_text then Some sample_report
                         else if t = stale_report_text then Some stale_report
                         else if t = misshapen_report_text
                              then Some (AObj [(''files'', ANum 5)])
                         else None),
      isWhiteSpace = ws_space_tab,
      format = (\<lambda>f args. f),
      SR = sample_strings,
      getConfiguration = (\<lambda>u.
         if u = ''file:///abs/broken.php'' then Inr (defaultSettings\<lparr>executablePath := None\<rparr>)
         else Inr defaultSettings)\<rparr>\<close>

definition sample_server :: server where
  "sample_server =
     \<lparr>hasConfigurationCapability = False, globalSettings = defaultSettings,
      documentSettings = Map.empty, validating = Map.empty, events = []\<rparr>"

text \<open>
  A second document, of which the report says nothing; a third one, for which the
  configuration has no executable; a server that asks for the configuration of each
  document; and a platform on which the checker writes to its standard error only.
\<close>

definition other_document :: TextDocument where
  "other_document = \<lparr>uri = ''file:///abs/other.php'', getText = ''<?php''\<rparr>"

definition broken_document :: TextDocument where
  "broken_document = \<lparr>uri = ''file:///abs/broken.php'', getText = ''<?php''\<rparr>"

text \<open>A document without text whose URI has an escape that cannot be decoded.\<close>

definition malformed_document :: TextDocument where
  "malformed_document = \<lparr>uri = ''file:///abs/%E0%A4%A.php'', getText = []\<rparr>"

definition configured_server :: server where
  "configured_server = sample_server\<lparr>hasConfigurationCapability := True\<rparr>"

definition failing_env :: env where
  "failing_env =
     sample_env
       \<lparr>spawnSync := (\<lambda>exe args opts.
          Inr \<lparr>status = Some 1, stdout = Some [], stderr = Some ''boom''\<rparr>),
        spawn := (\<lambda>exe args opts.
          Inl \<lparr>err_name = ''Error'', err_message = Some ''Exited with status 1'',
               err_stdout = Some [], err_stderr = Some ''boom''\<rparr>)\<rparr>"

section \<open>The start column\<close>

lemma scan_props:
  "1 \<le> i \<Longrightarrow> i \<le> length s \<Longrightarrow> st = i - 1 \<Longrightarrow> \<forall>j<i. ws (charCodeAt s j) \<Longrightarrow>
   scan ws s i st < length s \<and>
   (\<forall>j < scan ws s i st. ws (charCodeAt s j)) \<and>
   (\<not> ws (charCodeAt s (scan ws s i st)) \<or>
      (scan ws s i st = length s - 1 \<and> (\<forall>j<length s. ws (charCodeAt s j))))"
proof (induction ws s i st rule: scan.induct)
  case (1 ws s i st)
  show ?case
  proof (cases "i < length s")
    case False
    then have "scan ws s i st = st" by (simp add: scan.simps [of ws s i st])
    moreover from False "1.prems" have "i = length s" by simp
    ultimately show ?thesis using "1.prems" by simp
  next
    case True
    note lt = True
    show ?thesis
    proof (cases "ws (charCodeAt s i)")
      case False
      with lt have "scan ws s i st = i" by (simp add: scan.simps [of ws s i st])
      with lt False "1.prems" show ?thesis by simp
    next
      case True
      have all: "\<forall>j<Suc i. ws (charCodeAt s j)"
        using True "1.prems"(4) by (auto simp: less_Suc_eq)
      have eq: "scan ws s i st = scan ws s (Suc i) i"
        using lt True by (simp add: scan.simps [of ws s i st])
      have "scan ws s (Suc i) i < length s \<and>
            (\<forall>j < scan ws s (Suc i) i. ws (charCodeAt s j)) \<and>
            (\<not> ws (charCodeAt s (scan ws s (Suc i) i)) \<or>
               (scan ws s (Suc i) i = length s - 1 \<and> (\<forall>j<length s. ws (charCodeAt s j))))"
        using lt True all by (intro "1.IH") simp_all
      then show ?thesis unfolding eq .
    qed
  qed
qed

text \<open>
  Claim C2, as the spec has it: on a line that is not empty the start column is the
  length of the line or the index of the first character that is not white space. It
  fails on a line of one space: the start column is 0, which is not the length 1, and
  the character at 0 is white space.
\<close>

theorem resolveStart_blank_line_counterexample:
  "'' '' \<noteq> [] \<and> resolveStart ws_space_tab '' '' \<noteq> length '' '' \<and>
   ws_space_tab (charCodeAt '' '' (resolveStart ws_space_tab '' ''))"
  by (simp add: resolveStart_def ws_space_tab_def charCodeAt_def scan.simps)

text \<open>
  Claim C2, amended: on a line that is not empty, and for every classifier of white
  space, the start column is an index of the line, every character before it is white
  space, and the character at it is not white space unless the whole line is white
  space, in which case the start column is the last index of the line.
\<close>

theorem resolveStart_first_non_whitespace:
  assumes "lineString \<noteq> []"
  shows "resolveStart ws lineString < length lineString \<and>
         (\<forall>j < resolveStart ws lineString. ws (charCodeAt lineString j)) \<and>
         (\<not> ws (charCodeAt lineString (resolveStart ws lineString)) \<or>
            (resolveStart ws lineString = length lineString - 1 \<and>
             (\<forall>j < length lineString. ws (charCodeAt lineString j))))"
proof (cases "ws (charCodeAt lineString 0)")
  case False
  with assms show ?thesis by (simp add: resolveStart_def)
next
  case True
  have "1 \<le> length lineString" using assms by (cases lineString) simp_all
  moreover have "\<forall>j<(1::nat). ws (charCodeAt lineString j)" using True by simp
  ultimately have
    "scan ws lineString 1 0 < length lineString \<and>
     (\<forall>j < scan ws lineString 1 0. ws (charCodeAt lineString j)) \<and>
     (\<not> ws (charCodeAt lineString (scan ws lineString 1 0)) \<or>
        (scan ws lineString 1 0 = length lineString - 1 \<and>
         (\<forall>j<length lineString. ws (charCodeAt lineString j))))"
    by (intro scan_props) simp_all
  with True show ?thesis by (simp add: resolveStart_def)
qed

theorem resolveStart_first_non_whitespace_witness:
  "''  x '' \<noteq> [] \<and> resolveStart ws_space_tab ''  x '' = 2 \<and>
   \<not> ws_space_tab (charCodeAt ''  x '' 2) \<and>
   ws_space_tab (charCodeAt ''  x '' 0) \<and> ws_space_tab (charCodeAt ''  x '' 1)"
  using resolveStart_first_non_whitespace [of "''  x ''" ws_space_tab]
  by (simp add: resolveStart_def ws_space_tab_def charCodeAt_def scan.simps)

section \<open>One message, and a list of messages\<close>

lemma sample_texts [simp]:
  "sample_report_text \<noteq> []" "stale_report_text \<noteq> []"
  "stale_report_text \<noteq> sample_report_text"
  "misshapen_report_text \<noteq> sample_report_text"
  "misshapen_report_text \<noteq> stale_report_text"
  "''not json'' \<noteq> sample_report_text"
  "''not json'' \<noteq> stale_report_text"
  "''not json'' \<noteq> misshapen_report_text"
  by (simp_all add: sample_report_text_def stale_report_text_def misshapen_report_text_def)

lemma sample_lines:
  "split_nl (getText sample_document) =
     [''<?php'', ''/* test */'', [], ''f();'', ''  drupal_set_message(1234);'', []]"
  by (simp add: sample_document_def)

lemma sample_fifth:
  "createDiagnostic ws_space_tab sample_document
     (Some \<lparr>line = 5, message = ''Deprecated call''\<rparr>) =
     Inr \<lparr>diag_range = \<lparr>range_start = \<lparr>pos_line = 4, character = 2\<rparr>,
                         range_end = \<lparr>pos_line = 4, character = 27\<rparr>\<rparr>,
          diag_message = ''Deprecated call'', severity = Error,
          diag_code = None, diag_source = ''drupalchecker''\<rparr>"
  by (simp add: createDiagnostic_def sample_lines line_at_def Let_def resolveStart_def
        ws_space_tab_def charCodeAt_def scan.simps Diagnostic_create_def Range_create_def)

lemma sample_ninth:
  "createDiagnostic ws_space_tab sample_document (Some \<lparr>line = 9, message = ''Gone''\<rparr>) =
     Inl (TypeError ''lineString is undefined'')"
  by (simp add: createDiagnostic_def sample_lines line_at_def Let_def)

text \<open>
  Claim C9: for an entry that is \<^verbatim>\<open>null\<close> or whose message is the empty string,
  \<^verbatim>\<open>createDiagnostic\<close> returns the informational diagnostic with the empty range at the
  origin; for every other entry a diagnostic that it returns has the severity Error and
  the source \<^verbatim>\<open>drupalchecker\<close>, and it returns one when the line of the entry is a line
  of the document.
\<close>

theorem createDiagnostic_severity_and_source:
  "(entry = None \<or> message (the entry) = [] \<longrightarrow>
      createDiagnostic ws document entry =
        Inr \<lparr>diag_range = \<lparr>range_start = \<lparr>pos_line = 0, character = 0\<rparr>,
                            range_end = \<lparr>pos_line = 0, character = 0\<rparr>\<rparr>,
             diag_message = [], severity = Information,
             diag_code = None, diag_source = ''drupalchecker''\<rparr>) \<and>
   (entry \<noteq> None \<and> message (the entry) \<noteq> [] \<longrightarrow>
      (\<forall>d. createDiagnostic ws document entry = Inr d \<longrightarrow>
            severity d = Error \<and> diag_source d = ''drupalchecker'') \<and>
      (1 \<le> line (the entry) \<and>
       line (the entry) \<le> int (length (split_nl (getText document))) \<longrightarrow>
         (\<exists>d. createDiagnostic ws document entry = Inr d)))"
  by (cases entry)
     (auto simp: createDiagnostic_def Diagnostic_create_def Range_create_def Let_def line_at_def
           split: option.splits)

theorem createDiagnostic_severity_and_source_witness:
  "createDiagnostic ws_space_tab sample_document None =
        Inr \<lparr>diag_range = \<lparr>range_start = \<lparr>pos_line = 0, character = 0\<rparr>,
                            range_end = \<lparr>pos_line = 0, character = 0\<rparr>\<rparr>,
             diag_message = [], severity = Information,
             diag_code = None, diag_source = ''drupalchecker''\<rparr> \<and>
   (\<exists>d. createDiagnostic ws_space_tab sample_document
           (Some \<lparr>line = 5, message = ''Deprecated call''\<rparr>) = Inr d \<and>
        severity d = Error \<and> diag_source d = ''drupalchecker'')"
  using createDiagnostic_severity_and_source [of None ws_space_tab sample_document]
        createDiagnostic_severity_and_source
          [of "Some \<lparr>line = 5, message = ''Deprecated call''\<rparr>" ws_space_tab sample_document]
  by (simp add: sample_document_def) blast

lemma push_diagnostics_Inr:
  "push_diagnostics ws document ms = Inr ds \<Longrightarrow>
   length ds = length ms \<and>
   (\<forall>i<length ms. createDiagnostic ws document (ms ! i) = Inr (ds ! i))"
proof (induction ms arbitrary: ds)
  case Nil
  then show ?case by simp
next
  case (Cons m ms)
  from Cons.prems obtain d ds' where
    d: "createDiagnostic ws document m = Inr d" and
    ds': "push_diagnostics ws document ms = Inr ds'" and
    eq: "ds = d # ds'"
    by (auto split: sum.splits)
  from Cons.IH [OF ds'] d eq show ?case
    by (auto simp: nth_Cons split: nat.splits)
qed

lemma push_diagnostics_total:
  "(\<forall>m\<in>set ms. \<exists>d. createDiagnostic ws document m = Inr d) \<Longrightarrow>
   \<exists>ds. push_diagnostics ws document ms = Inr ds"
  by (induction ms) auto

lemma createDiagnostic_Inl:
  "createDiagnostic ws document m = Inl e \<Longrightarrow> e = TypeError ''lineString is undefined''"
  by (auto simp: createDiagnostic_def Let_def split: option.splits if_splits)

lemma push_diagnostics_Inl_TypeError:
  "push_diagnostics ws document ms = Inl e \<Longrightarrow> e = TypeError ''lineString is undefined''"
  by (induction ms) (auto split: sum.splits dest: createDiagnostic_Inl)

lemma push_diagnostics_Inl:
  "m \<in> set ms \<Longrightarrow> createDiagnostic ws document m = Inl e \<Longrightarrow>
   push_diagnostics ws document ms = Inl (TypeError ''lineString is undefined'')"
  by (induction ms) (auto split: sum.splits dest: createDiagnostic_Inl)

lemma get_prop_truthy: "get_prop (Some v) k = Inr (Some x) \<Longrightarrow> truthy (Some v)"
  by (cases v) simp_all

lemma processResults_entry:
  assumes "JSON_parse env results = Some data"
    and "realpathSync env fp = Inr rp"
    and "get_prop (Some data) ''files'' = Inr files"
    and "get_prop files rp = Inr (Some entry)"
    and "get_prop (Some entry) ''messages'' = Inr (Some (AArr ms))"
  shows "processResults env (Some fp) document results =
           push_diagnostics (isWhiteSpace env) document ms"
  using assms get_prop_truthy [OF assms(5)]
  by (simp add: processResults_def parseData_def)

text \<open>
  Claim C5, as the spec has it: a message whose line is not a line of the document makes
  the translation of that message alone fail, and the rest of the batch goes through. It
  fails on the document of six lines and the report whose messages are on lines 5 and 9:
  the message on line 5 has a diagnostic of its own, and \<^verbatim>\<open>processResults\<close> raises the
  \<^verbatim>\<open>TypeError\<close> of the message on line 9 and returns no diagnostic at all.
\<close>

theorem processResults_stale_line_counterexample:
  "createDiagnostic ws_space_tab sample_document
     (Some \<lparr>line = 5, message = ''Deprecated call''\<rparr>) =
     Inr \<lparr>diag_range = \<lparr>range_start = \<lparr>pos_line = 4, character = 2\<rparr>,
                         range_end = \<lparr>pos_line = 4, character = 27\<rparr>\<rparr>,
          diag_message = ''Deprecated call'', severity = Error,
          diag_code = None, diag_source = ''drupalchecker''\<rparr> \<and>
   processResults sample_env (Some ''/abs/path.php'') sample_document stale_report_text =
     Inl (TypeError ''lineString is undefined'')"
  by (simp add: sample_fifth sample_ninth processResults_def parseData_def sample_env_def
        stale_report_def ws_space_tab_def)

text \<open>
  Claim C5, amended: there is no bounds check. For a message with a text whose line is not
  a line of the document, \<^verbatim>\<open>createDiagnostic\<close> raises a \<^verbatim>\<open>TypeError\<close>, and so does the
  translation of every list of messages that holds it, and so does \<^verbatim>\<open>processResults\<close>
  on a report whose entry for the file has that list: no diagnostic is returned for any
  message of the batch.
\<close>

theorem createDiagnostic_no_bounds_check:
  assumes "m \<in> set ms" and "m = Some e" and "message e \<noteq> []"
    and "line e < 1 \<or> int (length (split_nl (getText document))) < line e"
  shows "createDiagnostic ws document m = Inl (TypeError ''lineString is undefined'') \<and>
         push_diagnostics ws document ms = Inl (TypeError ''lineString is undefined'') \<and>
         (JSON_parse env results = Some data \<and> realpathSync env fp = Inr rp \<and>
          get_prop (Some data) ''files'' = Inr files \<and> get_prop files rp = Inr (Some entry) \<and>
          get_prop (Some entry) ''messages'' = Inr (Some (AArr ms)) \<and> isWhiteSpace env = ws \<longrightarrow>
            processResults env (Some fp) document results =
              Inl (TypeError ''lineString is undefined''))"
proof -
  have c: "createDiagnostic ws document m = Inl (TypeError ''lineString is undefined'')"
    using assms(2-4) by (auto simp: createDiagnostic_def Let_def line_at_def)
  have p: "push_diagnostics ws document ms = Inl (TypeError ''lineString is undefined'')"
    using push_diagnostics_Inl [OF assms(1) c] .
  show ?thesis using c p by (auto simp: processResults_entry)
qed

theorem createDiagnostic_no_bounds_check_witness:
  "createDiagnostic ws_space_tab sample_document (Some \<lparr>line = 9, message = ''Gone''\<rparr>) =
     Inl (TypeError ''lineString is undefined'') \<and>
   push_diagnostics ws_space_tab sample_document
     [Some \<lparr>line = 5, message = ''Deprecated call''\<rparr>, Some \<lparr>line = 9, message = ''Gone''\<rparr>] =
     Inl (TypeError ''lineString is undefined'') \<and>
   processResults sample_env (Some ''/abs/path.php'') sample_document stale_report_text =
     Inl (TypeError ''lineString is undefined'')"
  using createDiagnostic_no_bounds_check
    [where m = "Some \<lparr>line = 9, message = ''Gone''\<rparr>"
       and e = "\<lparr>line = 9, message = ''Gone''\<rparr>"
       and ms = "[Some \<lparr>line = 5, message = ''Deprecated call''\<rparr>,
                  Some \<lparr>line = 9, message = ''Gone''\<rparr>]"
       and document = sample_document and ws = ws_space_tab and env = sample_env
       and results = stale_report_text and data = stale_report and fp = "''/abs/path.php''"
       and rp = "''/abs/path.php''"
       and files = "Some (AObj [(''/abs/path.php'',
                   AObj [(''messages'',
                          AArr [Some \<lparr>line = 5, message = ''Deprecated call''\<rparr>,
                                Some \<lparr>line = 9, message = ''Gone''\<rparr>])])])"
       and entry = "AObj [(''messages'',
                          AArr [Some \<lparr>line = 5, message = ''Deprecated call''\<rparr>,
                                Some \<lparr>line = 9, message = ''Gone''\<rparr>])]"]
  by (simp add: sample_lines sample_env_def stale_report_def)

section \<open>The parser and check\<close>

lemma check_with_stdout:
  assumes "getText document \<noteq> []"
    and "lint_path env document = Inr filePath"
    and "spawnSync env (checker_executablePath checker) (lint_args filePath)
           (lint_options settings (getText document)) = Inr res"
    and "truthy_str (stdout res)"
  shows "fst (check env checker document settings) =
           (case processResults env filePath document (the (stdout res)) of
              Inl error \<Rightarrow> fst (check_catch env filePath document error)
            | Inr ds \<Rightarrow> Inr (Some ds))"
  using assms by (simp add: check_def Let_def split: sum.splits prod.splits)

lemma check_catch_TypeError:
  "check_catch env fp document (TypeError m) = (Inr None, [])"
  by (simp add: check_catch_def truthy_str_def TypeError_def)

lemma check_catch_new_Error:
  "check_catch env fp document (new_Error m) = (Inr None, [])"
  by (simp add: check_catch_def truthy_str_def new_Error_def)

lemma processResults_spawnSync [simp]:
  "processResults (env\<lparr>spawnSync := f\<rparr>) fp document results =
   processResults env fp document results"
  by (simp add: processResults_def parseData_def split: option.splits sum.splits)

lemma processResults_spawn [simp]:
  "processResults (env\<lparr>spawn := f\<rparr>) fp document results =
   processResults env fp document results"
  by (simp add: processResults_def parseData_def split: option.splits sum.splits)

lemma lint_path_spawnSync [simp]:
  "lint_path (env\<lparr>spawnSync := f\<rparr>) document = lint_path env document"
  "lint_path (env\<lparr>spawn := g\<rparr>) document = lint_path env document"
  by (simp_all add: lint_path_def Let_def split: option.splits sum.splits)

lemma check_catch_spawnSync [simp]:
  "check_catch (env\<lparr>spawnSync := f\<rparr>) fp document e = check_catch env fp document e"
  by (simp add: check_catch_def)

lemma legacy_catch_spawn [simp]:
  "legacy_catch (env\<lparr>spawn := f\<rparr>) fp document e = legacy_catch env fp document e"
  by (simp add: legacy_catch_def)

text \<open>
  Claim C6: when the checker has written to its standard output, \<^verbatim>\<open>check\<close> does with an
  exit status that is not zero exactly what it does with the status zero, and the
  diagnostics are those of the standard output. This holds of \<^verbatim>\<open>check\<close> with
  \<^verbatim>\<open>spawnSync\<close>, which never reads the status, and, where \<^verbatim>\<open>processResults\<close> succeeds,
  of the copy that awaits \<^verbatim>\<open>spawn\<close>, whose rejection carries the standard output.
\<close>

theorem check_nonzero_exit_with_stdout:
  assumes "getText document \<noteq> []"
    and "lint_path env document = Inr filePath"
  shows "(spawnSync env (checker_executablePath checker) (lint_args filePath)
            (lint_options settings (getText document)) = Inr res \<and>
          truthy_str (stdout res) \<longrightarrow>
            check env checker document settings =
              check (env\<lparr>spawnSync := \<lambda>exe args opts. Inr (res\<lparr>status := Some 0\<rparr>)\<rparr>)
                checker document settings \<and>
            (\<forall>ds. processResults env filePath document (the (stdout res)) = Inr ds
                  \<longrightarrow> fst (check env checker document settings) = Inr (Some ds))) \<and>
         (spawn env (checker_executablePath checker) (lint_args filePath)
            (lint_options settings (getText document)) = Inl error \<and>
          truthy_str (err_stdout error) \<longrightarrow>
            (\<forall>ds. processResults env filePath document (the (err_stdout error)) = Inr ds
                  \<longrightarrow> fst (check_legacy env checker document settings) = Inr (Some ds) \<and>
                      fst (check_legacy
                             (env\<lparr>spawn := \<lambda>exe args opts. Inr (the (err_stdout error))\<rparr>)
                             checker document settings) = Inr (Some ds)))"
  using assms
  by (auto simp: check_def check_legacy_def legacy_catch_def Let_def split: sum.splits prod.splits)

text \<open>
  Claim C4, amended: when \<^verbatim>\<open>JSON.parse\<close> raises, \<^verbatim>\<open>parseData\<close> and \<^verbatim>\<open>processResults\<close>
  raise the error of the invalid JSON string and return no structure; a text that is JSON
  is returned as it was parsed, whatever its shape.
\<close>

theorem parseData_invalid_json:
  "(JSON_parse env results = None \<longrightarrow>
      parseData env results = Inl (new_Error (InvalidJsonStringError (SR env))) \<and>
      processResults env filePath document results =
        Inl (new_Error (InvalidJsonStringError (SR env)))) \<and>
   (\<forall>data. JSON_parse env results = Some data \<longrightarrow> parseData env results = Inr data)"
  by (simp add: parseData_def processResults_def)

text \<open>
  Claim C10: when the checker has written a report in which the real path of the document
  has an entry with a list of messages, a list of diagnostics that \<^verbatim>\<open>check\<close> returns has
  one diagnostic for each message, in the order of the messages; \<^verbatim>\<open>check\<close> returns one
  when every message can be translated; and \<^verbatim>\<open>check\<close> does not depend on
  \<^verbatim>\<open>maxNumberOfProblems\<close>.
\<close>

theorem check_one_diagnostic_per_message:
  assumes "getText document \<noteq> []"
    and "lint_path env document = Inr (Some fp)"
    and "spawnSync env (checker_executablePath checker) (lint_args (Some fp))
           (lint_options settings (getText document)) = Inr res"
    and "truthy_str (stdout res)"
    and "JSON_parse env (the (stdout res)) = Some data"
    and "realpathSync env fp = Inr rp"
    and "get_prop (Some data) ''files'' = Inr files"
    and "get_prop files rp = Inr (Some entry)"
    and "get_prop (Some entry) ''messages'' = Inr (Some (AArr ms))"
  shows "(\<forall>ds. fst (check env checker document settings) = Inr (Some ds) \<longrightarrow>
            length ds = length ms \<and>
            (\<forall>i<length ms. createDiagnostic (isWhiteSpace env) document (ms ! i) = Inr (ds ! i))) \<and>
         ((\<forall>m\<in>set ms. \<exists>d. createDiagnostic (isWhiteSpace env) document m = Inr d) \<longrightarrow>
            (\<exists>ds. fst (check env checker document settings) = Inr (Some ds))) \<and>
         check env checker document (settings\<lparr>maxNumberOfProblems := n\<rparr>) =
           check env checker document settings"
proof -
  have pr: "processResults env (Some fp) document (the (stdout res)) =
              push_diagnostics (isWhiteSpace env) document ms"
    using assms(5-9) by (rule processResults_entry)
  have chk: "fst (check env checker document settings) =
           (case push_diagnostics (isWhiteSpace env) document ms of
              Inl error \<Rightarrow> fst (check_catch env (Some fp) document error)
            | Inr ds \<Rightarrow> Inr (Some ds))"
    using check_with_stdout [where document = document and env = env and checker = checker
        and settings = settings and res = res] assms(1-4) pr
    by (simp cong: sum.case_cong)
  have a: "length ds = length ms \<and>
            (\<forall>i<length ms. createDiagnostic (isWhiteSpace env) document (ms ! i) = Inr (ds ! i))"
    if "fst (check env checker document settings) = Inr (Some ds)" for ds
  proof (cases "push_diagnostics (isWhiteSpace env) document ms")
    case (Inl e)
    then have "e = TypeError ''lineString is undefined''"
      by (rule push_diagnostics_Inl_TypeError)
    with Inl chk that show ?thesis by (simp add: check_catch_TypeError)
  next
    case (Inr ds')
    with chk that have "ds' = ds" by simp
    with Inr show ?thesis using push_diagnostics_Inr by blast
  qed
  have b: "\<exists>ds. fst (check env checker document settings) = Inr (Some ds)"
    if "\<forall>m\<in>set ms. \<exists>d. createDiagnostic (isWhiteSpace env) document m = Inr d"
    using push_diagnostics_total [OF that] chk by auto
  have c: "check env checker document (settings\<lparr>maxNumberOfProblems := n\<rparr>) =
           check env checker document settings"
  proof -
    have lo: "lint_options (settings\<lparr>maxNumberOfProblems := n\<rparr>) = lint_options settings"
      by (simp add: lint_options_def fun_eq_iff)
    show ?thesis unfolding check_def lo by (rule refl)
  qed
  from a b c show ?thesis by blast
qed


lemma sample_env_fields:
  "spawnSync sample_env exe args opts =
     Inr \<lparr>status = Some 1, stdout = Some sample_report_text, stderr = Some []\<rparr>"
  "spawn sample_env exe args opts =
     Inl \<lparr>err_name = ''Error'', err_message = Some ''Exited with status 1'',
          err_stdout = Some sample_report_text, err_stderr = Some []\<rparr>"
  "realpathSync sample_env p = Inr p"
  "isWhiteSpace sample_env = ws_space_tab"
  "JSON_parse sample_env sample_report_text = Some sample_report"
  "JSON_parse sample_env stale_report_text = Some stale_report"
  "JSON_parse sample_env misshapen_report_text = Some (AObj [(''files'', ANum 5)])"
  "JSON_parse sample_env ''not json'' = None"
  "InvalidJsonStringError (SR sample_env) = ''The checker returned an invalid JSON string.''"
  by (simp_all add: sample_env_def sample_strings_def)

lemma sample_lint_path:
  "lint_path sample_env sample_document = Inr (Some ''/abs/path.php'')"
  by (simp add: lint_path_def sample_env_def sample_document_def)

lemma sample_text: "getText sample_document \<noteq> []"
  by (simp add: sample_document_def)

lemma sample_processResults:
  "processResults sample_env (Some ''/abs/path.php'') sample_document sample_report_text =
     Inr [\<lparr>diag_range = \<lparr>range_start = \<lparr>pos_line = 4, character = 2\<rparr>,
                          range_end = \<lparr>pos_line = 4, character = 27\<rparr>\<rparr>,
           diag_message = ''Deprecated call'', severity = Error,
           diag_code = None, diag_source = ''drupalchecker''\<rparr>]"
  by (simp add: sample_fifth processResults_def parseData_def sample_env_fields
        sample_report_def)

text \<open>
  Claim C4, as the spec has it: a text that has not the shape of a report makes the parser
  fail. It fails on the text \<^verbatim>\<open>{"files":5}\<close>: \<^verbatim>\<open>parseData\<close> returns the parsed value, and
  \<^verbatim>\<open>processResults\<close> the empty list of diagnostics.
\<close>

theorem parseData_misshapen_counterexample:
  "parseData sample_env misshapen_report_text = Inr (AObj [(''files'', ANum 5)]) \<and>
   processResults sample_env (Some ''/abs/path.php'') sample_document misshapen_report_text =
     Inr []"
  by (simp add: processResults_def parseData_def sample_env_fields)

theorem parseData_invalid_json_witness:
  "parseData sample_env ''not json'' =
     Inl (new_Error ''The checker returned an invalid JSON string.'') \<and>
   processResults sample_env (Some ''/abs/path.php'') sample_document ''not json'' =
     Inl (new_Error ''The checker returned an invalid JSON string.'') \<and>
   parseData sample_env sample_report_text = Inr sample_report"
  using parseData_invalid_json
          [of sample_env "''not json''" "Some ''/abs/path.php''" sample_document]
        parseData_invalid_json
          [of sample_env sample_report_text "Some ''/abs/path.php''" sample_document]
  by (simp add: sample_env_fields)

theorem check_nonzero_exit_with_stdout_witness:
  "fst (check sample_env \<lparr>checker_executablePath = ''/usr/local/bin/drupal-check''\<rparr>
          sample_document defaultSettings) =
     Inr (Some [\<lparr>diag_range = \<lparr>range_start = \<lparr>pos_line = 4, character = 2\<rparr>,
                                range_end = \<lparr>pos_line = 4, character = 27\<rparr>\<rparr>,
                 diag_message = ''Deprecated call'', severity = Error,
                 diag_code = None, diag_source = ''drupalchecker''\<rparr>]) \<and>
   check sample_env \<lparr>checker_executablePath = ''/usr/local/bin/drupal-check''\<rparr>
     sample_document defaultSettings =
   check (sample_env\<lparr>spawnSync := \<lambda>exe args opts.
            Inr \<lparr>status = Some 0, stdout = Some sample_report_text, stderr = Some []\<rparr>\<rparr>)
     \<lparr>checker_executablePath = ''/usr/local/bin/drupal-check''\<rparr>
     sample_document defaultSettings \<and>
   fst (check_legacy sample_env \<lparr>checker_executablePath = ''/usr/local/bin/drupal-check''\<rparr>
          sample_document defaultSettings) =
     Inr (Some [\<lparr>diag_range = \<lparr>range_start = \<lparr>pos_line = 4, character = 2\<rparr>,
                                range_end = \<lparr>pos_line = 4, character = 27\<rparr>\<rparr>,
                 diag_message = ''Deprecated call'', severity = Error,
                 diag_code = None, diag_source = ''drupalchecker''\<rparr>])"
proof -
  note th = check_nonzero_exit_with_stdout
    [where document = sample_document and env = sample_env
       and checker = "\<lparr>checker_executablePath = ''/usr/local/bin/drupal-check''\<rparr>"
       and settings = defaultSettings
       and res = "\<lparr>status = Some 1, stdout = Some sample_report_text, stderr = Some []\<rparr>"
       and error = "\<lparr>err_name = ''Error'', err_message = Some ''Exited with status 1'',
              err_stdout = Some sample_report_text, err_stderr = Some []\<rparr>",
     OF sample_text sample_lint_path]
  have p1: "spawnSync sample_env
               (checker_executablePath \<lparr>checker_executablePath = ''/usr/local/bin/drupal-check''\<rparr>)
               (lint_args (Some ''/abs/path.php''))
               (lint_options defaultSettings (getText sample_document)) =
             Inr \<lparr>status = Some 1, stdout = Some sample_report_text, stderr = Some []\<rparr> \<and>
             truthy_str
               (stdout \<lparr>status = Some 1, stdout = Some sample_report_text, stderr = Some []\<rparr>)"
    by (simp add: sample_env_fields truthy_str_def)
  have p2: "spawn sample_env
               (checker_executablePath \<lparr>checker_executablePath = ''/usr/local/bin/drupal-check''\<rparr>)
               (lint_args (Some ''/abs/path.php''))
               (lint_options defaultSettings (getText sample_document)) =
             Inl \<lparr>err_name = ''Error'', err_message = Some ''Exited with status 1'',
                  err_stdout = Some sample_report_text, err_stderr = Some []\<rparr> \<and>
             truthy_str
               (err_stdout \<lparr>err_name = ''Error'', err_message = Some ''Exited with status 1'',
                  err_stdout = Some sample_report_text, err_stderr = Some []\<rparr>)"
    by (simp add: sample_env_fields truthy_str_def)
  have pr: "processResults sample_env (Some ''/abs/path.php'') sample_document
              sample_report_text =
            Inr [\<lparr>diag_range = \<lparr>range_start = \<lparr>pos_line = 4, character = 2\<rparr>,
                                range_end = \<lparr>pos_line = 4, character = 27\<rparr>\<rparr>,
                 diag_message = ''Deprecated call'', severity = Error,
                 diag_code = None, diag_source = ''drupalchecker''\<rparr>]"
    using sample_processResults by simp
  note a = th [THEN conjunct1, THEN mp, OF p1]
  note b = th [THEN conjunct2, THEN mp, OF p2]
  have a2: "fst (check sample_env \<lparr>checker_executablePath = ''/usr/local/bin/drupal-check''\<rparr>
                  sample_document defaultSettings) =
             Inr (Some [\<lparr>diag_range = \<lparr>range_start = \<lparr>pos_line = 4, character = 2\<rparr>,
                                range_end = \<lparr>pos_line = 4, character = 27\<rparr>\<rparr>,
                 diag_message = ''Deprecated call'', severity = Error,
                 diag_code = None, diag_source = ''drupalchecker''\<rparr>])"
    using a [THEN conjunct2] pr by simp
  have b1: "fst (check_legacy sample_env
                  \<lparr>checker_executablePath = ''/usr/local/bin/drupal-check''\<rparr>
                  sample_document defaultSettings) =
             Inr (Some [\<lparr>diag_range = \<lparr>range_start = \<lparr>pos_line = 4, character = 2\<rparr>,
                                range_end = \<lparr>pos_line = 4, character = 27\<rparr>\<rparr>,
                 diag_message = ''Deprecated call'', severity = Error,
                 diag_code = None, diag_source = ''drupalchecker''\<rparr>])"
    using b pr by simp
  have a1: "check sample_env \<lparr>checker_executablePath = ''/usr/local/bin/drupal-check''\<rparr>
              sample_document defaultSettings =
            check (sample_env\<lparr>spawnSync := \<lambda>exe args opts.
                     Inr \<lparr>status = Some 0, stdout = Some sample_report_text, stderr = Some []\<rparr>\<rparr>)
              \<lparr>checker_executablePath = ''/usr/local/bin/drupal-check''\<rparr>
              sample_document defaultSettings"
    using a [THEN conjunct1] by simp
  from a1 a2 b1 show ?thesis by blast

qed

theorem check_one_diagnostic_per_message_witness:
  "fst (check sample_env \<lparr>checker_executablePath = ''/usr/local/bin/drupal-check''\<rparr>
          sample_document defaultSettings) =
     Inr (Some [\<lparr>diag_range = \<lparr>range_start = \<lparr>pos_line = 4, character = 2\<rparr>,
                                range_end = \<lparr>pos_line = 4, character = 27\<rparr>\<rparr>,
                 diag_message = ''Deprecated call'', severity = Error,
                 diag_code = None, diag_source = ''drupalchecker''\<rparr>])"
proof -
  note th = check_one_diagnostic_per_message
    [where document = sample_document and env = sample_env
       and checker = "\<lparr>checker_executablePath = ''/usr/local/bin/drupal-check''\<rparr>"
       and settings = defaultSettings and fp = "''/abs/path.php''"
       and res = "\<lparr>status = Some 1, stdout = Some sample_report_text, stderr = Some []\<rparr>"
       and data = sample_report and rp = "''/abs/path.php''"
       and files = "Some (AObj [(''/abs/path.php'',
                   AObj [(''messages'',
                          AArr [Some \<lparr>line = 5, message = ''Deprecated call''\<rparr>])])])"
       and entry = "AObj [(''messages'',
                          AArr [Some \<lparr>line = 5, message = ''Deprecated call''\<rparr>])]"
       and ms = "[Some \<lparr>line = 5, message = ''Deprecated call''\<rparr>]",
     OF sample_text sample_lint_path]
  have th': "(\<forall>ds. fst (check sample_env
                 \<lparr>checker_executablePath = ''/usr/local/bin/drupal-check''\<rparr>
                 sample_document defaultSettings) = Inr (Some ds) \<longrightarrow>
               length ds = 1 \<and>
               createDiagnostic ws_space_tab sample_document
                 (Some \<lparr>line = 5, message = ''Deprecated call''\<rparr>) = Inr (ds ! 0)) \<and>
            (\<exists>ds. fst (check sample_env
                 \<lparr>checker_executablePath = ''/usr/local/bin/drupal-check''\<rparr>
                 sample_document defaultSettings) = Inr (Some ds))"
    using th sample_fifth by (simp add: sample_env_fields truthy_str_def sample_report_def)
  then obtain ds where
    ds: "fst (check sample_env \<lparr>checker_executablePath = ''/usr/local/bin/drupal-check''\<rparr>
                 sample_document defaultSettings) = Inr (Some ds)"
    by blast
  with th' have "length ds = 1" and
    "createDiagnostic ws_space_tab sample_document
       (Some \<lparr>line = 5, message = ''Deprecated call''\<rparr>) = Inr (ds ! 0)"
    by blast+
  with sample_fifth have "ds = [\<lparr>diag_range = \<lparr>range_start = \<lparr>pos_line = 4, character = 2\<rparr>,
                                range_end = \<lparr>pos_line = 4, character = 27\<rparr>\<rparr>,
                 diag_message = ''Deprecated call'', severity = Error,
                 diag_code = None, diag_source = ''drupalchecker''\<rparr>]"
    by (cases ds) simp_all
  with ds show ?thesis by simp
qed

section \<open>Validation of one document and of a batch\<close>

lemma published_append: "published (xs @ ys) = published xs @ published ys"
  by (induction xs rule: published.induct) simp_all

lemma spawns_append: "spawns (xs @ ys) = spawns xs @ spawns ys"
  by (induction xs rule: spawns.induct) simp_all

lemma events_emit: "events (emit evs st) = events st @ evs"
  by (simp add: emit_def)

lemma documentSettings_emit: "documentSettings (emit evs st) = documentSettings st"
  by (simp add: emit_def)

lemma getDocumentSettings_events:
  assumes "getDocumentSettings env st resource = (r, st1)"
  shows "published (events st1) = published (events st)"
    and "spawns (events st1) = spawns (events st)"
    and "(documentSettings st1)(resource := None) = (documentSettings st)(resource := None)"
  using assms
  by (auto simp: getDocumentSettings_def Let_def events_emit documentSettings_emit
        published_append spawns_append split: if_splits option.splits)

lemma finally_publish_events:
  "published (events (finally_publish env st document ds)) =
     published (events st) @ [(uri document, ds)]"
  "spawns (events (finally_publish env st document ds)) = spawns (events st)"
  by (simp_all add: finally_publish_def sendEndValidationNotification_def events_emit
        published_append spawns_append)

lemma sendStart_events:
  "published (events (sendStartValidationNotification env st document)) = published (events st)"
  "spawns (events (sendStartValidationNotification env st document)) = spawns (events st)"
  by (simp_all add: sendStartValidationNotification_def events_emit published_append
        spawns_append)

lemma lint_path_Inr:
  "uriToFilePath env (uri document) = Inr fp \<Longrightarrow> \<exists>filePath. lint_path env document = Inr filePath"
  by (cases fp) (simp_all add: lint_path_def Let_def)

lemma check_empty:
  "getText document = [] \<Longrightarrow>
   check env checker document settings =
     (case lint_path env document of
        Inl e \<Rightarrow> (Inl e, [])
      | Inr filePath \<Rightarrow> (Inr (Some []), []))"
  by (simp add: check_def split: sum.splits)

text \<open>
  Claim C7, as the spec has it: for every document whose text is the empty string
  \<^verbatim>\<open>check\<close> returns the empty list of diagnostics. It fails on the document without text
  whose URI has an escape that cannot be decoded: \<^verbatim>\<open>Files.uriToFilePath\<close> raises before the
  text is tested, outside the \<^verbatim>\<open>try\<close> block, and the promise of \<^verbatim>\<open>check\<close> is rejected with
  that exception.
\<close>

theorem check_empty_text_malformed_uri_counterexample:
  "getText malformed_document = [] \<and>
   check sample_env \<lparr>checker_executablePath = ''/usr/local/bin/drupal-check''\<rparr>
     malformed_document defaultSettings =
   (Inl \<lparr>err_name = ''URIError'', err_message = Some ''URI malformed'',
         err_stdout = None, err_stderr = None\<rparr>, [])"
  by (simp add: check_def lint_path_def malformed_document_def sample_env_def)

text \<open>
  Claim C7, amended: for a document whose text is the empty string and whose URI
  \<^verbatim>\<open>Files.uriToFilePath\<close> converts without an exception, \<^verbatim>\<open>check\<close> returns the empty list of
  diagnostics; for every document whose text is the empty string \<^verbatim>\<open>check\<close> causes no
  event, so that no process is started, and a validation of that document whose settings
  are resolved publishes the empty list for its URI, once, and starts no process.
\<close>

theorem check_empty_text:
  assumes "getText document = []"
  shows "(\<forall>fp. uriToFilePath env (uri document) = Inr fp \<longrightarrow>
            check env checker document settings = (Inr (Some []), [])) \<and>
         snd (check env checker document settings) = [] \<and>
         (\<forall>s st1. getDocumentSettings env st (uri document) = (Inr s, st1) \<longrightarrow>
            published (events (snd (validateSingle env st document))) =
              published (events st) @ [(uri document, Some [])] \<and>
            spawns (events (snd (validateSingle env st document))) = spawns (events st))"
proof -
  have c: "check env checker document settings =
             (case lint_path env document of
                Inl e \<Rightarrow> (Inl e, [])
              | Inr filePath \<Rightarrow> (Inr (Some []), []))" for checker settings
    using assms by (rule check_empty)
  have a: "check env checker document settings = (Inr (Some []), [])"
    if "uriToFilePath env (uri document) = Inr fp" for fp
    using lint_path_Inr [OF that] by (auto simp: c)
  have b: "snd (check env checker document settings) = []"
    by (simp add: c split: sum.splits)
  have v: "published (events (snd (validateSingle env st document))) =
              published (events st) @ [(uri document, Some [])] \<and>
            spawns (events (snd (validateSingle env st document))) = spawns (events st)"
    if g: "getDocumentSettings env st (uri document) = (Inr s, st1)" for s st1
    using getDocumentSettings_events(1,2) [OF g]
    by (auto simp: validateSingle_def g c Let_def finally_publish_events sendStart_events
          events_emit published_append spawns_append split: sum.splits)
  from a b v show ?thesis by blast
qed

text \<open>
  Claim C8: when the settings that are resolved for a document have the checker disabled,
  \<^verbatim>\<open>validateSingle\<close> completes, publishes the empty list for the URI of the document,
  leaves the cache of settings as it was but for the entry of that URI, which is gone, and
  starts no process.
\<close>

theorem validateSingle_disabled:
  assumes "getDocumentSettings env st (uri document) = (Inr settings, st1)"
    and "\<not> enable settings"
  shows "fst (validateSingle env st document) = Inr () \<and>
         published (events (snd (validateSingle env st document))) =
           published (events st) @ [(uri document, Some [])] \<and>
         documentSettings (snd (validateSingle env st document)) =
           (documentSettings st)(uri document := None) \<and>
         spawns (events (snd (validateSingle env st document))) = spawns (events st)"
  using assms getDocumentSettings_events [OF assms(1)]
  by (simp add: validateSingle_def events_emit published_append spawns_append
        documentSettings_emit)


lemma validateMany_Inl:
  "fst (validateSingle env st d) = Inl e \<Longrightarrow>
   validateMany env st (d # ds) = validateSingle env st d"
  by (cases "validateSingle env st d") (auto split: sum.splits)

lemma validateMany_Inr:
  "fst (validateSingle env st d) = Inr u \<Longrightarrow>
   validateMany env st (d # ds) = validateMany env (snd (validateSingle env st d)) ds"
  by (cases "validateSingle env st d") (auto split: sum.splits)

lemma validateMany_append:
  "validateMany env st0 pre = (Inr (), st) \<Longrightarrow>
   validateMany env st0 (pre @ rest) = validateMany env st rest"
proof (induction pre arbitrary: st0)
  case Nil
  then show ?case by simp
next
  case (Cons d pre)
  show ?case
  proof (cases "validateSingle env st0 d")
    case (Pair r st1)
    show ?thesis
    proof (cases r)
      case (Inl e)
      with Pair Cons.prems show ?thesis by simp
    next
      case (Inr u)
      with Pair Cons.prems have "validateMany env st1 pre = (Inr (), st)" by simp
      from Cons.IH [OF this] Pair Inr show ?thesis by simp
    qed
  qed
qed

lemma check_catch_published:
  "check_catch env fp d e = (r, evs) \<Longrightarrow> published evs = []"
  by (auto simp: check_catch_def split: sum.splits if_splits)

lemma check_published:
  "check env c d s = (r, evs) \<Longrightarrow> published evs = []"
  by (auto simp: check_def Let_def split: sum.splits if_splits prod.splits
        dest: check_catch_published)

lemma validateSingle_Inl_published:
  assumes "getDocumentSettings env st (uri d) = (Inr settings, st1)"
    and "validateSingle env st d = (Inl e, st')"
  shows "published (events st') = published (events st) @ [(uri d, Some [])]"
  using assms(2) getDocumentSettings_events(1) [OF assms(1)]
  by (auto simp: validateSingle_def assms(1) Let_def finally_publish_events sendStart_events
        events_emit published_append split: sum.splits if_splits prod.splits
        dest: check_published)

text \<open>
  Claim C1, amended: when the settings of a document are resolved and its validation ends
  with an exception (the checker could not be created, or \<^verbatim>\<open>check\<close> raised), one set of
  diagnostics is published for the URI of the document in that validation, and it is the
  empty array; and the exception ends \<^verbatim>\<open>validateMany\<close> at that document, whatever
  documents follow it in the batch.
\<close>

theorem validateSingle_failure_stops_batch:
  assumes "getDocumentSettings env st (uri d) = (Inr settings, st1)"
    and "validateSingle env st d = (Inl e, st')"
  shows "published (events st') = published (events st) @ [(uri d, Some [])] \<and>
         (\<forall>st0 pre post. validateMany env st0 pre = (Inr (), st) \<longrightarrow>
            validateMany env st0 (pre @ d # post) = (Inl e, st'))"
  using validateSingle_Inl_published [OF assms] assms(2)
  by (simp add: validateMany_append)

lemma sample_server_settings:
  "getDocumentSettings env sample_server u = (Inr defaultSettings, sample_server)"
  by (simp add: getDocumentSettings_def sample_server_def)

lemma sample_create:
  "create env (executablePath defaultSettings) =
     Inr \<lparr>checker_executablePath = ''/usr/local/bin/drupal-check''\<rparr>"
  by (simp add: create_def defaultSettings_def)

lemma failing_check:
  "check failing_env \<lparr>checker_executablePath = ''/usr/local/bin/drupal-check''\<rparr>
     sample_document defaultSettings =
   (Inr None,
    [Spawned ''/usr/local/bin/drupal-check''
       (lint_args (Some ''/abs/path.php''))
       (lint_options defaultSettings (getText sample_document)),
     ConsoleInfo ''Success!''])"
  by (simp add: check_def failing_env_def sample_lint_path sample_text truthy_str_def
        check_catch_def new_Error_def Let_def)

lemma failing_check_legacy:
  "fst (check_legacy failing_env \<lparr>checker_executablePath = ''/usr/local/bin/drupal-check''\<rparr>
          sample_document defaultSettings) = Inr None"
  by (simp add: check_legacy_def failing_env_def sample_lint_path sample_text truthy_str_def
        legacy_catch_def Let_def)

text \<open>
  Claim C3, on the platform whose checker exits with status 1, an empty standard output
  and the standard error \<^verbatim>\<open>boom\<close>: \<^verbatim>\<open>check\<close> does not fail, its value is \<^verbatim>\<open>undefined\<close>, in
  either copy of the checker;
  \<^verbatim>\<open>validateSingle\<close> completes, and what it publishes for the URI is \<^verbatim>\<open>undefined\<close>, not the
  empty array.
\<close>

theorem check_missing_output_swallowed:
  "fst (check failing_env \<lparr>checker_executablePath = ''/usr/local/bin/drupal-check''\<rparr>
          sample_document defaultSettings) = Inr None \<and>
   fst (check_legacy failing_env \<lparr>checker_executablePath = ''/usr/local/bin/drupal-check''\<rparr>
          sample_document defaultSettings) = Inr None \<and>
   fst (validateSingle failing_env sample_server sample_document) = Inr () \<and>
   published (events (snd (validateSingle failing_env sample_server sample_document))) =
     [(''file:///abs/path.php'', None)]"
  by (simp add: failing_check failing_check_legacy validateSingle_def sample_server_settings
        sample_create
        defaultSettings_def [THEN arg_cong, of enable] finally_publish_events sendStart_events
        events_emit published_append)
     (simp add: sample_server_def sample_document_def defaultSettings_def)


lemma configured_settings:
  "getDocumentSettings sample_env configured_server ''file:///abs/broken.php'' =
     (Inr (defaultSettings\<lparr>executablePath := None\<rparr>),
      emit [ConfigurationRequest ''file:///abs/broken.php'']
        (configured_server\<lparr>documentSettings :=
           [''file:///abs/broken.php'' \<mapsto> Inr (defaultSettings\<lparr>executablePath := None\<rparr>)]\<rparr>))"
  "getDocumentSettings sample_env configured_server ''file:///abs/path.php'' =
     (Inr defaultSettings,
      emit [ConfigurationRequest ''file:///abs/path.php'']
        (configured_server\<lparr>documentSettings :=
           [''file:///abs/path.php'' \<mapsto> Inr defaultSettings]\<rparr>))"
  by (simp_all add: getDocumentSettings_def configured_server_def sample_server_def
        sample_env_def Let_def)

lemma configured_events: "events configured_server = []"
  by (simp add: configured_server_def sample_server_def)

lemma broken_create:
  "create sample_env None = Inl (new_Error ''Unable to create the checker.'')"
  by (simp add: create_def sample_env_def sample_strings_def TypeError_def)

lemma broken_message:
  "rethrown sample_env (new_Error ''Unable to create the checker.'') d =
     new_Error ''Unable to create the checker.''"
  by (simp add: rethrown_def getExceptionMessage_def new_Error_def)

lemma broken_cycle:
  "fst (validateSingle sample_env configured_server broken_document) =
     Inl (new_Error ''Unable to create the checker.'')"
  "published (events (snd (validateSingle sample_env configured_server broken_document))) =
     [(''file:///abs/broken.php'', Some [])]"
proof -
  have u: "uri broken_document = ''file:///abs/broken.php''"
    by (simp add: broken_document_def)
  have en: "enable (defaultSettings\<lparr>executablePath := None\<rparr>)"
    by (simp add: defaultSettings_def)
  show "fst (validateSingle sample_env configured_server broken_document) =
     Inl (new_Error ''Unable to create the checker.'')"
    by (simp add: validateSingle_def u configured_settings en broken_create broken_message
          Let_def)
  show "published (events (snd (validateSingle sample_env configured_server broken_document))) =
     [(''file:///abs/broken.php'', Some [])]"
    by (simp add: validateSingle_def u configured_settings en broken_create Let_def
          finally_publish_events sendStart_events events_emit published_append
          configured_events)
qed

lemma sample_check:
  "check sample_env \<lparr>checker_executablePath = ''/usr/local/bin/drupal-check''\<rparr>
     sample_document defaultSettings =
   (Inr (Some [\<lparr>diag_range = \<lparr>range_start = \<lparr>pos_line = 4, character = 2\<rparr>,
                                range_end = \<lparr>pos_line = 4, character = 27\<rparr>\<rparr>,
                 diag_message = ''Deprecated call'', severity = Error,
                 diag_code = None, diag_source = ''drupalchecker''\<rparr>]),
    [Spawned ''/usr/local/bin/drupal-check''
       (lint_args (Some ''/abs/path.php''))
       (lint_options defaultSettings (getText sample_document)),
     ConsoleInfo ''Success!''])"
  by (simp add: check_def sample_lint_path sample_text truthy_str_def sample_env_fields
        sample_processResults Let_def)

lemma sample_cycle:
  "published (events (snd (validateSingle sample_env configured_server sample_document))) =
     [(''file:///abs/path.php'',
       Some [\<lparr>diag_range = \<lparr>range_start = \<lparr>pos_line = 4, character = 2\<rparr>,
                                range_end = \<lparr>pos_line = 4, character = 27\<rparr>\<rparr>,
                 diag_message = ''Deprecated call'', severity = Error,
                 diag_code = None, diag_source = ''drupalchecker''\<rparr>])]"
proof -
  have u: "uri sample_document = ''file:///abs/path.php''"
    by (simp add: sample_document_def)
  have en: "enable defaultSettings" by (simp add: defaultSettings_def)
  show ?thesis
    by (simp add: validateSingle_def u configured_settings en sample_create sample_check
          Let_def finally_publish_events sendStart_events events_emit published_append
          configured_events)
qed

text \<open>
  Claim C1, as the spec has it: the failure of one document does not keep the other
  documents of a batch from being validated. It fails on the batch of a document for
  which the checker cannot be created, followed by the sample document: \<^verbatim>\<open>validateMany\<close>
  ends with the exception of the first, and nothing is published for the second, whose
  own validation would publish its diagnostic.
\<close>

theorem validateMany_stops_counterexample:
  "fst (validateMany sample_env configured_server [broken_document, sample_document]) =
     Inl (new_Error ''Unable to create the checker.'') \<and>
   published (events (snd (validateMany sample_env configured_server
                             [broken_document, sample_document]))) =
     [(''file:///abs/broken.php'', Some [])] \<and>
   published (events (snd (validateSingle sample_env configured_server sample_document))) =
     [(''file:///abs/path.php'',
       Some [\<lparr>diag_range = \<lparr>range_start = \<lparr>pos_line = 4, character = 2\<rparr>,
                                range_end = \<lparr>pos_line = 4, character = 27\<rparr>\<rparr>,
                 diag_message = ''Deprecated call'', severity = Error,
                 diag_code = None, diag_source = ''drupalchecker''\<rparr>])]"
  by (simp add: validateMany_Inl [OF broken_cycle(1)] broken_cycle sample_cycle
        del: validateMany.simps)


theorem validateSingle_failure_stops_batch_witness:
  "published (events (snd (validateSingle sample_env configured_server broken_document))) =
     [(''file:///abs/broken.php'', Some [])] \<and>
   validateMany sample_env configured_server [broken_document, sample_document] =
     (Inl (new_Error ''Unable to create the checker.''),
      snd (validateSingle sample_env configured_server broken_document))"
proof -
  have u: "uri broken_document = ''file:///abs/broken.php''"
    by (simp add: broken_document_def)
  have v: "validateSingle sample_env configured_server broken_document =
             (Inl (new_Error ''Unable to create the checker.''),
              snd (validateSingle sample_env configured_server broken_document))"
    using broken_cycle(1) by (simp add: prod_eq_iff)
  have m: "validateMany sample_env configured_server [] = (Inr (), configured_server)"
    by simp
  note th = validateSingle_failure_stops_batch
    [where env = sample_env and st = configured_server and d = broken_document,
     unfolded u, OF configured_settings(1) v]
  from th [THEN conjunct1] th [THEN conjunct2, rule_format, OF m, of "[sample_document]"]
  show ?thesis by (simp add: configured_events)
qed

theorem check_empty_text_witness:
  "check sample_env \<lparr>checker_executablePath = ''/usr/local/bin/drupal-check''\<rparr>
     \<lparr>uri = ''file:///abs/empty.php'', getText = []\<rparr> defaultSettings = (Inr (Some []), []) \<and>
   published (events (snd (validateSingle sample_env sample_server
                             \<lparr>uri = ''file:///abs/empty.php'', getText = []\<rparr>))) =
     [(''file:///abs/empty.php'', Some [])] \<and>
   spawns (events (snd (validateSingle sample_env sample_server
                          \<lparr>uri = ''file:///abs/empty.php'', getText = []\<rparr>))) = []"
proof -
  have u: "uriToFilePath sample_env (uri \<lparr>uri = ''file:///abs/empty.php'', getText = []\<rparr>) =
             Inr (Some ''/abs/empty.php'')"
    by (simp add: sample_env_def)
  have g: "getDocumentSettings sample_env sample_server
             (uri \<lparr>uri = ''file:///abs/empty.php'', getText = []\<rparr>) =
           (Inr defaultSettings, sample_server)"
    by (rule sample_server_settings)
  have e: "events sample_server = []" by (simp add: sample_server_def)
  have t: "getText \<lparr>uri = ''file:///abs/empty.php'', getText = []\<rparr> = []" by simp
  note th = check_empty_text
    [where document = "\<lparr>uri = ''file:///abs/empty.php'', getText = []\<rparr>"
       and env = sample_env and st = sample_server and settings = defaultSettings
       and checker = "\<lparr>checker_executablePath = ''/usr/local/bin/drupal-check''\<rparr>",
     OF t]
  from th [THEN conjunct1, rule_format, OF u]
       th [THEN conjunct2, THEN conjunct2, rule_format, OF g]
  show ?thesis by (simp add: e)
qed

theorem validateSingle_disabled_witness:
  "fst (validateSingle sample_env
          (configured_server\<lparr>documentSettings :=
             [''file:///abs/path.php'' \<mapsto> Inr (defaultSettings\<lparr>enable := False\<rparr>)]\<rparr>)
          sample_document) = Inr () \<and>
   published (events (snd (validateSingle sample_env
          (configured_server\<lparr>documentSettings :=
             [''file:///abs/path.php'' \<mapsto> Inr (defaultSettings\<lparr>enable := False\<rparr>)]\<rparr>)
          sample_document))) = [(''file:///abs/path.php'', Some [])] \<and>
   documentSettings (snd (validateSingle sample_env
          (configured_server\<lparr>documentSettings :=
             [''file:///abs/path.php'' \<mapsto> Inr (defaultSettings\<lparr>enable := False\<rparr>)]\<rparr>)
          sample_document)) ''file:///abs/path.php'' = None \<and>
   spawns (events (snd (validateSingle sample_env
          (configured_server\<lparr>documentSettings :=
             [''file:///abs/path.php'' \<mapsto> Inr (defaultSettings\<lparr>enable := False\<rparr>)]\<rparr>)
          sample_document))) = []"
proof -
  have u: "uri sample_document = ''file:///abs/path.php''"
    by (simp add: sample_document_def)
  have g: "getDocumentSettings sample_env
             (configured_server\<lparr>documentSettings :=
                [''file:///abs/path.php'' \<mapsto> Inr (defaultSettings\<lparr>enable := False\<rparr>)]\<rparr>)
             (uri sample_document) =
           (Inr (defaultSettings\<lparr>enable := False\<rparr>),
            configured_server\<lparr>documentSettings :=
                [''file:///abs/path.php'' \<mapsto> Inr (defaultSettings\<lparr>enable := False\<rparr>)]\<rparr>)"
    by (simp add: getDocumentSettings_def configured_server_def u)
  have d: "\<not> enable (defaultSettings\<lparr>enable := False\<rparr>)" by simp
  from validateSingle_disabled [OF g d] show ?thesis
    by (simp add: u configured_events)
qed

end
